theory Spec2Isabelle
  imports Complex_Main "HOL-Library.Sublist" "HOL-Library.Product_Lexorder"
begin

section \<open>Conventions of the embedding\<close>

text \<open>
  The development embeds the analytical core of the SAGE writing assistant: the intent
  classifier and the memory operations of \<^verbatim>\<open>UserAgent\<close> (user_agent.py), the
  response validator \<^verbatim>\<open>CheckerAgent\<close> (checker_agent.py), the model method
  \<^verbatim>\<open>AgentMemory.update_access\<close> (sage_agents.py) and the feedback route
  \<^verbatim>\<open>submit_feedback\<close> (sage_api.py).

  \<^item> Python floats are modelled as \<^typ>\<open>real\<close>: scores are exact, with no binary
    rounding.
  \<^item> Python strings are modelled as \<^typ>\<open>string\<close> holding ASCII text: case folding
    acts on the letters A to Z, the word characters are letters, digits and the underscore,
    and the white space characters are those of \<^verbatim>\<open>str.split\<close> below code 128.
  \<^item> A dictionary whose iteration order matters is an association list in insertion
    order.
  \<^item> Every exception the embedded code can raise is a value of \<open>py_error\<close>.
  \<^item> The database session is an explicit state, and \<^verbatim>\<open>datetime.utcnow()\<close> is a
    clock handed to the operation as the sequence of its successive readings, in seconds.
\<close>

datatype py_error = ZeroDivisionError | AttributeError

section \<open>Text primitives\<close>

text \<open>\<^verbatim>\<open>str.lower\<close> on one ASCII character.\<close>

definition lower_char :: "char \<Rightarrow> char" where
  "lower_char c =
     (let n = (of_char c :: nat) in if 65 \<le> n \<and> n \<le> 90 then char_of (n + 32) else c)"

definition lower :: "string \<Rightarrow> string" where
  "lower s = map lower_char s"

text \<open>The characters \<^verbatim>\<open>str.split()\<close> and the regex class \<^verbatim>\<open>\s\<close> treat as white
  space: tab to carriage return, the four separators 28 to 31, and the blank.\<close>

definition is_space :: "char \<Rightarrow> bool" where
  "is_space c =
     (let n = (of_char c :: nat) in (9 \<le> n \<and> n \<le> 13) \<or> (28 \<le> n \<and> n \<le> 32))"

text \<open>The regex class \<^verbatim>\<open>\w\<close>.\<close>

definition is_word_char :: "char \<Rightarrow> bool" where
  "is_word_char c =
     (let n = (of_char c :: nat) in
        (48 \<le> n \<and> n \<le> 57) \<or> (65 \<le> n \<and> n \<le> 90) \<or> n = 95 \<or> (97 \<le> n \<and> n \<le> 122))"

text \<open>\<^verbatim>\<open>str.split()\<close> without arguments: the maximal runs of characters that are not
  white space. \<open>cur\<close> is the run being read, reversed.\<close>

fun split_acc :: "string \<Rightarrow> string \<Rightarrow> string list" where
  "split_acc cur [] = (if cur = [] then [] else [rev cur])"
| "split_acc cur (c # cs) =
     (if is_space c then (if cur = [] then split_acc [] cs else rev cur # split_acc [] cs)
      else split_acc (c # cur) cs)"

definition split :: "string \<Rightarrow> string list" where
  "split s = split_acc [] s"

text \<open>The string operator \<^verbatim>\<open>needle in haystack\<close>.\<close>

fun contains :: "string \<Rightarrow> string \<Rightarrow> bool" where
  "contains [] needle = (needle = [])"
| "contains (c # cs) needle = (prefix needle (c # cs) \<or> contains cs needle)"

text \<open>\<^verbatim>\<open>any(word in content for word in words)\<close>.\<close>

definition contains_any :: "string \<Rightarrow> string list \<Rightarrow> bool" where
  "contains_any content words = list_ex (contains content) words"

section \<open>Regular expressions\<close>

text \<open>
  The patterns of the source use literals, alternation of literals in a group, the word
  boundary \<^verbatim>\<open>\b\<close>, \<^verbatim>\<open>.*\<close> and \<^verbatim>\<open>\s+\<close>. \<open>rmatch ic r s i\<close> lists the positions
  at which a match of \<open>r\<close> that starts at position \<open>i\<close> of \<open>s\<close> can end, in
  the order in which the backtracking matcher of \<^verbatim>\<open>re\<close> tries them: the alternatives of
  a group from left to right, the greedy repetitions from the longest to the shortest. The
  head of the list is the match \<^verbatim>\<open>re\<close> reports. \<open>ic\<close> is the flag
  \<^verbatim>\<open>re.IGNORECASE\<close>.
\<close>

datatype regex = Lit string | WordB | DotStar | SpacePlus | Alt regex regex | Seq regex regex

definition word_at :: "string \<Rightarrow> nat \<Rightarrow> bool" where
  "word_at s i = (i < length s \<and> is_word_char (s ! i))"

definition word_boundary :: "string \<Rightarrow> nat \<Rightarrow> bool" where
  "word_boundary s i = ((0 < i \<and> word_at s (i - 1)) \<noteq> word_at s i)"

fun rmatch :: "bool \<Rightarrow> regex \<Rightarrow> string \<Rightarrow> nat \<Rightarrow> nat list" where
  "rmatch ic (Lit l) s i =
     (let t = take (length l) (drop i s) in
      if (if ic then lower t = lower l else t = l) then [i + length l] else [])"
| "rmatch ic WordB s i = (if word_boundary s i then [i] else [])"
| "rmatch ic DotStar s i =
     (let n = length (takeWhile (\<lambda>c. c \<noteq> CHR 0x0A) (drop i s)) in rev [i ..< i + n + 1])"
| "rmatch ic SpacePlus s i =
     (let n = length (takeWhile is_space (drop i s)) in rev [i + 1 ..< i + n + 1])"
| "rmatch ic (Alt a b) s i = rmatch ic a s i @ rmatch ic b s i"
| "rmatch ic (Seq a b) s i = concat (map (rmatch ic b s) (rmatch ic a s i))"

text \<open>
  \<^verbatim>\<open>re.findall\<close>: scan from the left; after a match resume at its end, or one
  position further when the match was empty. The result lists the spans of the matches;
  the source only uses how many there are and whether there is any.
\<close>

function findall_from :: "bool \<Rightarrow> regex \<Rightarrow> string \<Rightarrow> nat \<Rightarrow> (nat \<times> nat) list" where
  "findall_from ic r s pos =
     (if length s < pos then []
      else case rmatch ic r s pos of
             [] \<Rightarrow> findall_from ic r s (pos + 1)
           | e # _ \<Rightarrow> (pos, e) # findall_from ic r s (if e \<le> pos then pos + 1 else e))"
  by pat_completeness auto
termination
  by (relation "measure (\<lambda>(ic, r, s, pos). length s + 1 - pos)") auto

declare findall_from.simps [simp del]

definition findall :: "bool \<Rightarrow> regex \<Rightarrow> string \<Rightarrow> (nat \<times> nat) list" where
  "findall ic r s = findall_from ic r s 0"

text \<open>A group of literal alternatives \<^verbatim>\<open>(a|b|c)\<close>, and a concatenation.\<close>

fun alts :: "string list \<Rightarrow> regex" where
  "alts [] = Lit []"
| "alts [l] = Lit l"
| "alts (l # ls) = Alt (Lit l) (alts ls)"

fun seqs :: "regex list \<Rightarrow> regex" where
  "seqs [] = Lit []"
| "seqs [r] = r"
| "seqs (r # rs) = Seq r (seqs rs)"

text \<open>The shape \<^verbatim>\<open>\b(a|b|c)\b\<close> of the intent patterns.\<close>

definition word_alts :: "string list \<Rightarrow> regex" where
  "word_alts ls = seqs [WordB, alts ls, WordB]"

section \<open>Intent classification (user_agent.py)\<close>

datatype IntentType = ANSWER | ACK | R_LANGUAGE_USE | R_INFORMATION | R_REVISION
  | R_EVALUATION | R_GENERATION | NEGOTIATION | OTHER | QUESTION | R_CONFIRMATION
  | CONVERSATION | R_TRANSLATION

text \<open>\<^verbatim>\<open>UserAgent._initialize_intent_patterns\<close>: the dictionary literal, in its order.\<close>

definition initialize_intent_patterns :: "(IntentType \<times> regex list) list" where
  "initialize_intent_patterns =
    [(ANSWER,
       [word_alts [''what'', ''how'', ''why'', ''when'', ''where'', ''which'', ''who''],
        word_alts [''question'', ''ask'', ''tell me'', ''explain''],
        Lit ''?'',
        word_alts [''help me understand'', ''clarify'', ''define'']]),
     (ACK,
       [word_alts [''yes'', ''ok'', ''okay'', ''right'', ''correct'', ''thanks'', ''thank you''],
        word_alts [''i see'', ''i understand'', ''got it'', ''makes sense''],
        word_alts [''good'', ''great'', ''perfect'', ''excellent'']]),
     (R_LANGUAGE_USE,
       [word_alts [''grammar'', ''syntax'', ''word choice'', ''vocabulary''],
        word_alts [''correct'', ''fix'', ''improve'', ''better way''],
        word_alts [''comma'', ''period'', ''punctuation'', ''spelling''],
        word_alts [''tense'', ''verb'', ''noun'', ''adjective'', ''adverb'']]),
     (R_INFORMATION,
       [word_alts [''information'', ''details'', ''facts'', ''data''],
        word_alts [''research'', ''source'', ''reference'', ''citation''],
        word_alts [''background'', ''context'', ''history'']]),
     (R_REVISION,
       [word_alts [''revise'', ''edit'', ''rewrite'', ''improve'', ''modify''],
        word_alts [''draft'', ''version'', ''change'', ''update''],
        word_alts [''better'', ''enhance'', ''polish'', ''refine'']]),
     (R_EVALUATION,
       [word_alts [''evaluate'', ''assess'', ''judge'', ''rate'', ''score''],
        word_alts [''feedback'', ''opinion'', ''thoughts'', ''review''],
        word_alts [''good'', ''bad'', ''quality'', ''strength'', ''weakness'']]),
     (R_GENERATION,
       [word_alts [''generate'', ''create'', ''write'', ''produce'', ''make''],
        word_alts [''example'', ''sample'', ''template'', ''outline''],
        word_alts [''idea'', ''suggestion'', ''topic'', ''theme'']]),
     (NEGOTIATION,
       [word_alts [''but'', ''however'', ''although'', ''disagree'', ''different''],
        word_alts [''alternative'', ''another way'', ''instead''],
        word_alts [''negotiate'', ''discuss'', ''debate'']]),
     (R_CONFIRMATION,
       [word_alts [''confirm'', ''verify'', ''check'', ''sure'', ''certain''],
        word_alts [''is this right'', ''am i correct'', ''does this work'']]),
     (CONVERSATION,
       [word_alts [''hello'', ''hi'', ''hey'', ''good morning'', ''good afternoon''],
        word_alts [''how are you'', ''nice to meet'', ''chat'', ''talk'']]),
     (R_TRANSLATION,
       [word_alts [''translate'', ''translation'', ''chinese'', ''korean''],
        word_alts [''mean in'', ''say in'', ''express in'']])]"

text \<open>The inner loop of \<^verbatim>\<open>classify_intent\<close>:
  \<^verbatim>\<open>score += len(re.findall(pattern, user_input_lower))\<close> over the patterns of one
  intent.\<close>

definition count_matches :: "regex list \<Rightarrow> string \<Rightarrow> nat" where
  "count_matches patterns s = foldl (\<lambda>score p. score + length (findall False p s)) 0 patterns"

text \<open>\<^verbatim>\<open>d[k] = v\<close> on a dictionary kept in insertion order.\<close>

definition dict_set :: "('k \<times> 'v) list \<Rightarrow> 'k \<Rightarrow> 'v \<Rightarrow> ('k \<times> 'v) list" where
  "dict_set d k v =
     (if map_of d k = None then d @ [(k, v)]
      else map (\<lambda>(k', v'). if k' = k then (k', v) else (k', v')) d)"

text \<open>The outer loop of \<^verbatim>\<open>classify_intent\<close>, filling \<^verbatim>\<open>intent_scores\<close>. The
  division \<^verbatim>\<open>score / len(user_input.split())\<close> raises when the divisor is zero.\<close>

fun score_intents ::
  "(IntentType \<times> regex list) list \<Rightarrow> string \<Rightarrow> string \<Rightarrow> (IntentType \<times> real) list
     \<Rightarrow> py_error + (IntentType \<times> real) list" where
  "score_intents [] user_input user_input_lower intent_scores = Inr intent_scores"
| "score_intents ((intent_type, patterns) # rest) user_input user_input_lower intent_scores =
     (let score = count_matches patterns user_input_lower in
      if 0 < score then
        (if length (split user_input) = 0 then Inl ZeroDivisionError
         else score_intents rest user_input user_input_lower
                (dict_set intent_scores intent_type
                   (real score / real (length (split user_input)))))
      else score_intents rest user_input user_input_lower intent_scores)"

text \<open>\<^verbatim>\<open>max(intent_scores, key=intent_scores.get)\<close> on a dictionary that is not empty:
  the keys are visited in insertion order and the best one so far is replaced only by a
  strictly larger one.\<close>

fun max_by_value :: "('k \<times> real) \<Rightarrow> ('k \<times> real) list \<Rightarrow> ('k \<times> real)" where
  "max_by_value best [] = best"
| "max_by_value best (x # xs) = max_by_value (if snd best < snd x then x else best) xs"

definition classify_intent :: "string \<Rightarrow> py_error + (IntentType \<times> real)" where
  "classify_intent user_input =
     (case score_intents initialize_intent_patterns user_input (lower user_input) [] of
        Inl e \<Rightarrow> Inl e
      | Inr intent_scores \<Rightarrow>
          (case intent_scores of
             [] \<Rightarrow> Inr (OTHER, 0.5)
           | x # xs \<Rightarrow>
               (let (best_intent, best_score) = max_by_value x xs
                in Inr (best_intent, min (best_score * 2) 1.0))))"

text \<open>The length-normalised score of one intent: its number of pattern matches in the
  lowered input, divided by the number of words of the input.\<close>

definition normalized_score :: "string \<Rightarrow> regex list \<Rightarrow> real" where
  "normalized_score user_input patterns =
     real (count_matches patterns (lower user_input)) / real (length (split user_input))"

section \<open>Data model (sage_agents.py) and the dictionaries of the validator\<close>

text \<open>
  A dictionary with fixed keys and a table row are records. The fields carry a short
  prefix (\<open>v_\<close> for the validation results, \<open>i_\<close> for an \<^verbatim>\<open>Interaction\<close> row,
  \<open>m_\<close> for an \<^verbatim>\<open>AgentMemory\<close> row, and so on), so that the parameters of the
  functions keep the names they have in the source. A key that may be absent and a
  nullable column are options. Timestamps are seconds on the clock.
\<close>

record criteria_config =
  min_score :: real
  indicators :: "string list"
  negative_indicators :: "string list"

record criterion_details =
  positive_indicators_found :: "string list"
  negative_indicators_found :: "string list"
  content_length :: nat
  word_count :: nat

record criterion_result =
  q_score :: real
  q_meets_threshold :: bool
  q_details :: criterion_details

record compliance_result =
  e_score :: real
  e_compliant :: bool
  e_requirements_met :: "bool list"

record bias_detail =
  b_matches :: "(nat \<times> nat) list"
  b_severity :: string

record bias_result =
  b_detected_biases :: "string list"
  b_bias_details :: "(string \<times> bias_detail) list"
  b_bias_free :: bool

record aspect_result =
  a_score :: real
  a_consistent :: bool
  a_description :: string

record consistency_result =
  c_overall_consistency :: "real option"
  c_aspect_results :: "(string \<times> aspect_result) list option"
  c_consistent :: bool
  c_details :: "string option"

text \<open>A recommendation line; the source formats the same data into a sentence.\<close>

datatype recommendation =
    ImproveCriterion string real real
  | AddressCompliance string real
  | RemoveBias string
  | ImproveConsistency string

record validation_results =
  v_overall_score :: real
  v_quality_scores :: "(string \<times> criterion_result) list"
  v_educational_compliance :: "(string \<times> compliance_result) list"
  v_bias_detection :: bias_result
  v_consistency_check :: consistency_result
  v_recommendations :: "recommendation list"
  v_approved :: bool
  v_issues :: "string list"

text \<open>The argument dictionaries of \<^verbatim>\<open>validate_response\<close>, with the keys the validator
  reads.\<close>

record response_dict =
  r_content :: "string option"
  r_type :: "string option"

record learner_profile_dict =
  p_id :: "int option"

record processed_input_dict =
  pi_learner_profile :: "learner_profile_dict option"

record Interaction =
  i_id :: int
  i_session_id :: string
  i_learner_id :: int
  i_user_input :: string
  i_assistant_response :: "string option"
  i_checker_validation :: "validation_results option"
  i_intent_type :: "IntentType option"
  i_confidence_score :: real
  i_user_rating :: "int option"
  i_context_data :: "string option"
  i_memory_key :: "string option"
  i_created_at :: real
  i_completed_at :: "real option"

record AgentMemory =
  m_id :: int
  m_learner_id :: int
  m_memory_key :: string
  m_memory_type :: string
  m_content :: string
  m_importance_score :: real
  m_access_count :: int
  m_last_accessed :: real
  m_decay_factor :: real
  m_retention_strength :: real
  m_tags :: "string option"
  m_created_at :: real

text \<open>The two tables the embedded code reads and writes, rows in insertion order.\<close>

record database =
  db_interactions :: "Interaction list"
  db_memories :: "AgentMemory list"

text \<open>\<^verbatim>\<open>Interaction.query.get(interaction_id)\<close>.\<close>

definition get_interaction :: "database \<Rightarrow> int \<Rightarrow> Interaction option" where
  "get_interaction db interaction_id = find (\<lambda>i. i_id i = interaction_id) (db_interactions db)"

section \<open>Response validation (checker_agent.py)\<close>

definition initialize_quality_criteria :: "(string \<times> criteria_config) list" where
  "initialize_quality_criteria =
    [(''clarity'',
       \<lparr>min_score = 0.7,
        indicators = [''clear explanation'', ''step-by-step'', ''examples provided''],
        negative_indicators = [''vague'', ''confusing'', ''unclear'']\<rparr>),
     (''accuracy'',
       \<lparr>min_score = 0.8,
        indicators = [''factually correct'', ''proper grammar'', ''appropriate terminology''],
        negative_indicators = [''incorrect information'', ''grammar errors'', ''misleading'']\<rparr>),
     (''helpfulness'',
       \<lparr>min_score = 0.7,
        indicators = [''actionable advice'', ''specific suggestions'', ''relevant examples''],
        negative_indicators = [''generic response'', ''unhelpful'', ''irrelevant'']\<rparr>),
     (''engagement'',
       \<lparr>min_score = 0.6,
        indicators = [''encouraging tone'', ''interactive elements'', ''motivational''],
        negative_indicators = [''dry'', ''boring'', ''discouraging'']\<rparr>)]"

definition initialize_educational_standards :: "(string \<times> string list) list" where
  "initialize_educational_standards =
    [(''age_appropriate'',
       [''suitable language level'', ''appropriate content complexity'',
        ''no inappropriate references'']),
     (''pedagogically_sound'',
       [''builds on prior knowledge'', ''scaffolded learning'', ''clear learning objectives'',
        ''promotes self-regulation'']),
     (''culturally_sensitive'',
       [''respects cultural differences'', ''inclusive language'', ''avoids stereotypes'',
        ''considers EFL context'']),
     (''academically_rigorous'',
       [''accurate information'', ''proper citations when needed'',
        ''evidence-based suggestions'', ''promotes critical thinking''])]"

definition initialize_bias_patterns :: "(string \<times> regex list) list" where
  "initialize_bias_patterns =
    [(''gender_bias'',
       [seqs [WordB, alts [''he'', ''his'', ''him''], WordB, DotStar, WordB,
              alts [''strong'', ''leader'', ''assertive''], WordB],
        seqs [WordB, alts [''she'', ''her''], WordB, DotStar, WordB,
              alts [''emotional'', ''sensitive'', ''nurturing''], WordB]]),
     (''cultural_bias'',
       [seqs [WordB, alts [''western'', ''eastern''], SpacePlus,
              alts [''way'', ''approach'', ''method''], WordB],
        seqs [WordB, alts [''american'', ''chinese'', ''korean''], SpacePlus,
              alts [''students'', ''learners''], SpacePlus, alts [''are'', ''tend to''], WordB]]),
     (''linguistic_bias'',
       [seqs [WordB, Lit ''native'', SpacePlus, Lit ''speaker'', WordB],
        seqs [WordB, Lit ''perfect'', SpacePlus, Lit ''english'', WordB],
        seqs [WordB, Lit ''broken'', SpacePlus, Lit ''english'', WordB]]),
     (''ability_bias'',
       [seqs [WordB, alts [''smart'', ''intelligent''], SpacePlus,
              alts [''students'', ''learners''], WordB],
        seqs [WordB, alts [''slow'', ''weak''], SpacePlus,
              alts [''learners'', ''students''], WordB]])]"

definition initialize_consistency_checks :: "(string \<times> string) list" where
  "initialize_consistency_checks =
    [(''terminology'', ''Check for consistent use of technical terms''),
     (''tone'', ''Verify consistent supportive and encouraging tone''),
     (''difficulty_level'', ''Ensure appropriate difficulty progression''),
     (''learning_objectives'', ''Align with stated learning goals''),
     (''feedback_style'', ''Maintain consistent feedback approach'')]"

text \<open>\<^verbatim>\<open>assistant_response.get('content', '')\<close>.\<close>

definition get_content :: "response_dict \<Rightarrow> string" where
  "get_content assistant_response =
     (case r_content assistant_response of None \<Rightarrow> [] | Some c \<Rightarrow> c)"

text \<open>The two counting loops of \<^verbatim>\<open>_calculate_criterion_score\<close>:
  \<^verbatim>\<open>if indicator.lower() in content_lower: count += 1\<close>.\<close>

definition count_indicators :: "string \<Rightarrow> string list \<Rightarrow> nat" where
  "count_indicators content_lower inds =
     foldl (\<lambda>count indicator. if contains content_lower (lower indicator) then count + 1 else count)
       0 inds"

definition calculate_criterion_score :: "string \<Rightarrow> criteria_config \<Rightarrow> real" where
  "calculate_criterion_score content config =
     (let content_lower = lower content;
          positive_count = count_indicators content_lower (indicators config);
          negative_count = count_indicators content_lower (negative_indicators config);
          total_indicators = length (indicators config)
      in if total_indicators = 0 then 0.5
         else
           (let positive_ratio = real positive_count / real total_indicators;
                negative_penalty = real negative_count * 0.2
            in max 0.0 (min 1.0 (positive_ratio - negative_penalty))))"

definition get_criterion_details :: "string \<Rightarrow> criteria_config \<Rightarrow> criterion_details" where
  "get_criterion_details content config =
     (let content_lower = lower content in
      \<lparr>positive_indicators_found =
         filter (\<lambda>indicator. contains content_lower (lower indicator)) (indicators config),
       negative_indicators_found =
         filter (\<lambda>indicator. contains content_lower (lower indicator))
           (negative_indicators config),
       content_length = length content,
       word_count = length (split content)\<rparr>)"

definition assess_quality ::
  "response_dict \<Rightarrow> processed_input_dict \<Rightarrow> (string \<times> criterion_result) list" where
  "assess_quality assistant_response processed_input =
     (let content = get_content assistant_response in
      foldl (\<lambda>quality_scores (criterion, config).
               (let score = calculate_criterion_score content config in
                dict_set quality_scores criterion
                  \<lparr>q_score = score,
                   q_meets_threshold = (min_score config \<le> score),
                   q_details = get_criterion_details content config\<rparr>))
        [] initialize_quality_criteria)"

definition check_requirement :: "string \<Rightarrow> string \<Rightarrow> learner_profile_dict \<Rightarrow> bool" where
  "check_requirement content requirement learner_profile =
     (let requirement_lower = lower requirement in
      if contains requirement_lower ''appropriate'' then 50 < length content
      else if contains requirement_lower ''scaffolded'' then
        contains content ''step'' \<or> contains content ''first'' \<or> contains content ''next''
      else if contains requirement_lower ''self-regulation'' then
        contains_any content [''goal'', ''plan'', ''monitor'', ''reflect'', ''strategy'']
      else if contains requirement_lower ''cultural'' then
        \<not> contains content ''culture'' \<or> contains content ''inclusive''
      else if contains requirement_lower ''evidence'' then
        contains content ''research'' \<or> contains content ''study'' \<or> contains content ''evidence''
      else True)"

definition assess_educational_compliance ::
  "string \<Rightarrow> string list \<Rightarrow> learner_profile_dict \<Rightarrow> real" where
  "assess_educational_compliance content requirements learner_profile =
     (let content_lower = lower content;
          met_requirements =
            foldl (\<lambda>met requirement.
                     if check_requirement content_lower requirement learner_profile
                     then met + 1 else met)
              (0 :: nat) requirements
      in if requirements \<noteq> [] then real met_requirements / real (length requirements)
         else 0.0)"

text \<open>
  \<^verbatim>\<open>self._check_requirements_met(content, requirements)\<close>: the class
  \<^verbatim>\<open>CheckerAgent\<close> defines \<^verbatim>\<open>_check_requirement\<close> and no method of this name, it has
  no base class and no \<^verbatim>\<open>__getattr__\<close>, and no other file of the repository adds the
  attribute. The attribute lookup raises.
\<close>

definition check_requirements_met :: "string \<Rightarrow> string list \<Rightarrow> py_error + bool list" where
  "check_requirements_met content requirements = Inl AttributeError"

text \<open>The loop of \<^verbatim>\<open>_check_educational_standards\<close>. The dictionary display of one
  standard evaluates its three values in order; the third is the call above.\<close>

fun check_standards_loop ::
  "(string \<times> string list) list \<Rightarrow> string \<Rightarrow> learner_profile_dict
     \<Rightarrow> (string \<times> compliance_result) list \<Rightarrow> py_error + (string \<times> compliance_result) list" where
  "check_standards_loop [] content learner_profile compliance_results = Inr compliance_results"
| "check_standards_loop ((standard, requirements) # rest) content learner_profile
     compliance_results =
     (let compliance_score = assess_educational_compliance content requirements learner_profile
      in case check_requirements_met content requirements of
           Inl e \<Rightarrow> Inl e
         | Inr met \<Rightarrow>
             check_standards_loop rest content learner_profile
               (dict_set compliance_results standard
                  \<lparr>e_score = compliance_score,
                   e_compliant = (0.7 \<le> compliance_score),
                   e_requirements_met = met\<rparr>))"

text \<open>\<^verbatim>\<open>processed_input.get('learner_profile', {})\<close>.\<close>

definition get_learner_profile :: "processed_input_dict \<Rightarrow> learner_profile_dict" where
  "get_learner_profile processed_input =
     (case pi_learner_profile processed_input of None \<Rightarrow> \<lparr>p_id = None\<rparr> | Some p \<Rightarrow> p)"

definition check_educational_standards ::
  "response_dict \<Rightarrow> processed_input_dict \<Rightarrow> py_error + (string \<times> compliance_result) list" where
  "check_educational_standards assistant_response processed_input =
     check_standards_loop initialize_educational_standards (get_content assistant_response)
       (get_learner_profile processed_input) []"

definition assess_bias_severity :: "(nat \<times> nat) list \<Rightarrow> string \<Rightarrow> string" where
  "assess_bias_severity matches bias_type =
     (if 3 \<le> length matches then ''high''
      else if 2 \<le> length matches then ''medium''
      else ''low'')"

definition detect_bias :: "response_dict \<Rightarrow> bias_result" where
  "detect_bias assistant_response =
     (let content = get_content assistant_response;
          (detected_biases, bias_details) =
            foldl (\<lambda>(detected_biases, bias_details) (bias_type, patterns).
                     (let matches = concat (map (\<lambda>pattern. findall True pattern content) patterns)
                      in if matches \<noteq> [] then
                           (detected_biases @ [bias_type],
                            dict_set bias_details bias_type
                              \<lparr>b_matches = matches,
                               b_severity = assess_bias_severity matches bias_type\<rparr>)
                         else (detected_biases, bias_details)))
              ([], []) initialize_bias_patterns
      in \<lparr>b_detected_biases = detected_biases,
          b_bias_details = bias_details,
          b_bias_free = (length detected_biases = 0)\<rparr>)"

text \<open>\<^verbatim>\<open>_get_recent_interactions\<close>: the rows of the learner that carry a response, newest
  first, at most \<open>limit\<close> of them.\<close>

definition get_recent_interactions :: "database \<Rightarrow> int \<Rightarrow> nat \<Rightarrow> Interaction list" where
  "get_recent_interactions db learner_id limit =
     take limit
       (sort_key (\<lambda>i. - i_created_at i)
          (filter (\<lambda>i. i_learner_id i = learner_id \<and> i_assistant_response i \<noteq> None)
             (db_interactions db)))"

definition encouraging_words :: "string list" where
  "encouraging_words = [''great'', ''excellent'', ''good'', ''well done'', ''keep up'']"

definition assess_consistency_aspect ::
  "response_dict \<Rightarrow> Interaction list \<Rightarrow> string \<Rightarrow> real" where
  "assess_consistency_aspect current_response recent_interactions aspect =
     (if recent_interactions = [] then 1.0
      else
        (let current_content = lower (get_content current_response) in
         if aspect = ''tone'' then
           (let current_encouraging = contains_any current_content encouraging_words;
                past_encouraging_count =
                  foldl (\<lambda>count interaction.
                           (case i_assistant_response interaction of
                              None \<Rightarrow> count
                            | Some past \<Rightarrow>
                                if past \<noteq> [] \<and> contains_any (lower past) encouraging_words
                                then count + 1 else count))
                    (0 :: nat) recent_interactions
            in if length recent_interactions = 0 then 1.0
               else
                 (let past_encouraging_ratio =
                        real past_encouraging_count / real (length recent_interactions)
                  in if 0.5 < past_encouraging_ratio \<and> current_encouraging then 1.0
                     else if past_encouraging_ratio \<le> 0.5 \<and> \<not> current_encouraging then 1.0
                     else 0.5))
         else 0.8))"

text \<open>\<^verbatim>\<open>_check_consistency\<close>. \<^verbatim>\<open>not learner_id\<close> holds for a missing id and for the
  id 0.\<close>

definition check_consistency ::
  "database \<Rightarrow> response_dict \<Rightarrow> processed_input_dict \<Rightarrow> consistency_result" where
  "check_consistency db assistant_response processed_input =
     (case p_id (get_learner_profile processed_input) of
        None \<Rightarrow>
          \<lparr>c_overall_consistency = None, c_aspect_results = None, c_consistent = True,
           c_details = Some ''No previous interactions to compare''\<rparr>
      | Some learner_id \<Rightarrow>
          if learner_id = 0 then
            \<lparr>c_overall_consistency = None, c_aspect_results = None, c_consistent = True,
             c_details = Some ''No previous interactions to compare''\<rparr>
          else
            (let recent_interactions = get_recent_interactions db learner_id 5;
                 consistency_results =
                   foldl (\<lambda>results (check_type, description).
                            (let consistency_score =
                                   assess_consistency_aspect assistant_response
                                     recent_interactions check_type
                             in dict_set results check_type
                                  \<lparr>a_score = consistency_score,
                                   a_consistent = (0.7 \<le> consistency_score),
                                   a_description = description\<rparr>))
                     [] initialize_consistency_checks;
                 overall_consistency =
                   (if consistency_results \<noteq> [] then
                      sum_list (map (\<lambda>(k, result). a_score result) consistency_results)
                        / real (length consistency_results)
                    else 1.0)
             in \<lparr>c_overall_consistency = Some overall_consistency,
                 c_aspect_results = Some consistency_results,
                 c_consistent = (0.7 \<le> overall_consistency),
                 c_details = None\<rparr>))"

text \<open>\<^verbatim>\<open>round(x, ndigits)\<close>: to the nearest multiple of \<open>10 ^ -ndigits\<close>, a tie to the
  even one.\<close>

definition round_half_even :: "real \<Rightarrow> int" where
  "round_half_even x =
     (let f = \<lfloor>x\<rfloor>; d = x - of_int f in
      if d < 1 / 2 then f else if 1 / 2 < d then f + 1 else if even f then f else f + 1)"

definition py_round :: "real \<Rightarrow> nat \<Rightarrow> real" where
  "py_round x ndigits = of_int (round_half_even (x * 10 ^ ndigits)) / 10 ^ ndigits"

text \<open>\<^verbatim>\<open>consistency_check.get('overall_consistency', 1.0)\<close>.\<close>

definition get_overall_consistency :: "consistency_result \<Rightarrow> real" where
  "get_overall_consistency consistency_check =
     (case c_overall_consistency consistency_check of None \<Rightarrow> 1.0 | Some s \<Rightarrow> s)"

text \<open>\<^verbatim>\<open>_calculate_overall_score\<close>. The two averages divide by the sizes of the
  dictionaries they are handed.\<close>

definition calculate_overall_score ::
  "(string \<times> criterion_result) list \<Rightarrow> (string \<times> compliance_result) list \<Rightarrow> bias_result
     \<Rightarrow> consistency_result \<Rightarrow> py_error + real" where
  "calculate_overall_score quality_scores educational_compliance bias_detection consistency_check =
     (if length quality_scores = 0 then Inl ZeroDivisionError
      else
        (let quality_avg =
               sum_list (map (\<lambda>(k, score). q_score score) quality_scores)
                 / real (length quality_scores)
         in if length educational_compliance = 0 then Inl ZeroDivisionError
            else
              (let educational_avg =
                     sum_list (map (\<lambda>(k, score). e_score score) educational_compliance)
                       / real (length educational_compliance);
                   bias_score = (if b_bias_free bias_detection then 1.0 else 0.0);
                   consistency_score = get_overall_consistency consistency_check;
                   overall_score =
                     quality_avg * 0.4 + educational_avg * 0.3 + bias_score * 0.2
                       + consistency_score * 0.1
               in Inr (py_round overall_score 3))))"

text \<open>\<^verbatim>\<open>_generate_recommendations\<close>, on the four parts of the results it reads.\<close>

definition generate_recommendations ::
  "(string \<times> criterion_result) list \<Rightarrow> (string \<times> compliance_result) list \<Rightarrow> bias_result
     \<Rightarrow> consistency_result \<Rightarrow> recommendation list" where
  "generate_recommendations quality_scores educational_compliance bias_detection
     consistency_check =
     concat (map (\<lambda>(criterion, result).
                    if \<not> q_meets_threshold result then
                      [ImproveCriterion criterion (q_score result)
                         (case map_of initialize_quality_criteria criterion of
                            None \<Rightarrow> 0 | Some config \<Rightarrow> min_score config)]
                    else [])
               quality_scores)
     @ concat (map (\<lambda>(standard, result).
                      if \<not> e_compliant result then [AddressCompliance standard (e_score result)]
                      else [])
                 educational_compliance)
     @ map RemoveBias (b_detected_biases bias_detection)
     @ concat (map (\<lambda>(aspect, result).
                      if \<not> a_consistent result then [ImproveConsistency aspect] else [])
                 (case c_aspect_results consistency_check of None \<Rightarrow> [] | Some rs \<Rightarrow> rs))"

text \<open>\<^verbatim>\<open>_store_validation_results\<close>: the results are written to the row, if there is
  one.\<close>

definition store_validation_results :: "database \<Rightarrow> int \<Rightarrow> validation_results \<Rightarrow> database" where
  "store_validation_results db interaction_id results =
     (case get_interaction db interaction_id of
        None \<Rightarrow> db
      | Some interaction \<Rightarrow>
          db\<lparr>db_interactions :=
               map (\<lambda>i. if i_id i = interaction_id
                         then i\<lparr>i_checker_validation := Some results\<rparr> else i)
                 (db_interactions db)\<rparr>)"

text \<open>\<^verbatim>\<open>validate_response\<close>: the four assessments in the order of the source, the
  score, the recommendations, the approval, the write. An exception leaves before any
  write.\<close>

definition validate_response ::
  "database \<Rightarrow> response_dict \<Rightarrow> processed_input_dict \<Rightarrow> int
     \<Rightarrow> py_error + (validation_results \<times> database)" where
  "validate_response db assistant_response processed_input interaction_id =
     (let quality_scores = assess_quality assistant_response processed_input in
      case check_educational_standards assistant_response processed_input of
        Inl e \<Rightarrow> Inl e
      | Inr educational_compliance \<Rightarrow>
          (let bias_detection = detect_bias assistant_response;
               consistency_check = check_consistency db assistant_response processed_input
           in case calculate_overall_score quality_scores educational_compliance bias_detection
                     consistency_check of
                Inl e \<Rightarrow> Inl e
              | Inr overall_score \<Rightarrow>
                  (let recommendations =
                         generate_recommendations quality_scores educational_compliance
                           bias_detection consistency_check;
                       results =
                         \<lparr>v_overall_score = overall_score,
                          v_quality_scores = quality_scores,
                          v_educational_compliance = educational_compliance,
                          v_bias_detection = bias_detection,
                          v_consistency_check = consistency_check,
                          v_recommendations = recommendations,
                          v_approved =
                            (0.7 \<le> overall_score
                              \<and> length (b_detected_biases bias_detection) = 0),
                          v_issues = []\<rparr>
                   in Inr (results, store_validation_results db interaction_id results))))"

section \<open>Memory and feedback (user_agent.py, sage_agents.py, sage_api.py)\<close>











text \<open>The JSON values of a request body, as \<^verbatim>\<open>request.get_json()\<close> delivers them.\<close>

datatype json = JNull | JBool bool | JInt int | JFloat real | JString string | JArray | JObject





section \<open>Example values\<close>

text \<open>The concrete inputs at which the theorems below are instantiated: learner 7, one
  interaction (id 3) and one memory row, two clocks, request bodies and intermediate
  results of the validator.\<close>

abbreviation example_interaction :: Interaction where
  "example_interaction \<equiv>
     \<lparr>i_id = 3, i_session_id = ''s1'', i_learner_id = 7, i_user_input = ''fix comma'',
      i_assistant_response = Some ''Use a comma before the conjunction.'',
      i_checker_validation = None, i_intent_type = Some R_LANGUAGE_USE,
      i_confidence_score = 1, i_user_rating = None, i_context_data = None,
      i_memory_key = None, i_created_at = 0, i_completed_at = None\<rparr>"



abbreviation empty_database :: database where
  "empty_database \<equiv> \<lparr>db_interactions = [], db_memories = []\<rparr>"


abbreviation unanswered_database :: database where
  "unanswered_database \<equiv>
     \<lparr>db_interactions = [example_interaction\<lparr>i_assistant_response := None\<rparr>],
      db_memories = []\<rparr>"







abbreviation anonymous_input :: processed_input_dict where
  "anonymous_input \<equiv> \<lparr>pi_learner_profile = None\<rparr>"

abbreviation learner_input :: processed_input_dict where
  "learner_input \<equiv> \<lparr>pi_learner_profile = Some \<lparr>p_id = Some 7\<rparr>\<rparr>"

abbreviation encouraging_response :: response_dict where
  "encouraging_response \<equiv> \<lparr>r_content = Some ''Great work!'', r_type = None\<rparr>"

abbreviation comma_response :: response_dict where
  "comma_response \<equiv>
     \<lparr>r_content = Some ''Use a comma before the conjunction.'',
      r_type = Some ''language_feedback''\<rparr>"


abbreviation example_quality :: "string \<times> criterion_result" where
  "example_quality \<equiv>
     (''clarity'',
      \<lparr>q_score = 1 / 3, q_meets_threshold = False,
       q_details = \<lparr>positive_indicators_found = [''step-by-step''],
                    negative_indicators_found = [], content_length = 12, word_count = 1\<rparr>\<rparr>)"

abbreviation example_compliance :: "string \<times> compliance_result" where
  "example_compliance \<equiv>
     (''age_appropriate'', \<lparr>e_score = 1 / 2, e_compliant = False, e_requirements_met = []\<rparr>)"

abbreviation bias_free_result :: bias_result where
  "bias_free_result \<equiv> \<lparr>b_detected_biases = [], b_bias_details = [], b_bias_free = True\<rparr>"

abbreviation no_comparison :: consistency_result where
  "no_comparison \<equiv>
     \<lparr>c_overall_consistency = None, c_aspect_results = None, c_consistent = True,
      c_details = Some ''No previous interactions to compare''\<rparr>"

section \<open>Properties of the text primitives and of the matcher\<close>

lemma count_matches_sum:
  "count_matches ps s = sum_list (map (\<lambda>p. length (findall False p s)) ps)"
proof -
  have "foldl (\<lambda>score p. score + length (findall False p s)) a ps
        = a + sum_list (map (\<lambda>p. length (findall False p s)) ps)" for a
    by (induction ps arbitrary: a) auto
  then show ?thesis by (simp add: count_matches_def)
qed

lemma findall_from_match:
  "findall_from ic r s pos \<noteq> [] \<Longrightarrow> \<exists>i. rmatch ic r s i \<noteq> []"
proof (induction ic r s pos rule: findall_from.induct)
  case (1 ic r s pos)
  show ?case
  proof (cases "rmatch ic r s pos")
    case Nil
    with "1.prems" have "findall_from ic r s (pos + 1) \<noteq> []" and "\<not> length s < pos"
      by (auto simp: findall_from.simps [of ic r s pos] split: if_splits)
    with "1.IH"(1) Nil show ?thesis by blast
  next
    case (Cons e es)
    then show ?thesis by (intro exI [of _ pos]) simp
  qed
qed

lemma word_boundary_word: "word_boundary s i \<Longrightarrow> \<exists>c\<in>set s. is_word_char c"
  by (auto simp: word_boundary_def word_at_def dest: nth_mem)

lemma rmatch_word_alts: "rmatch ic (word_alts ls) s i \<noteq> [] \<Longrightarrow> word_boundary s i"
  by (auto simp: word_alts_def split: if_splits)

lemma rmatch_Lit: "rmatch False (Lit (c # l)) s i \<noteq> [] \<Longrightarrow> c \<in> set s"
proof -
  assume "rmatch False (Lit (c # l)) s i \<noteq> []"
  then have "take (length (c # l)) (drop i s) = c # l"
    by (auto split: if_splits simp: Let_def)
  then have "c \<in> set (take (length (c # l)) (drop i s))" by simp
  then show ?thesis by (meson in_set_dropD in_set_takeD)
qed

lemma is_space_lower: "is_space c \<Longrightarrow> lower_char c = c"
  by (auto simp: is_space_def lower_char_def Let_def)

lemma word_not_space: "is_word_char c \<Longrightarrow> \<not> is_space c"
  by (auto simp: is_space_def is_word_char_def Let_def)

lemma lower_nonspace:
  assumes "c \<in> set (lower u)" "\<not> is_space c"
  shows "\<exists>d\<in>set u. \<not> is_space d"
proof -
  from assms(1) obtain d where d: "d \<in> set u" "c = lower_char d"
    by (auto simp: lower_def)
  show ?thesis
  proof (cases "is_space d")
    case True
    with d assms(2) is_space_lower [of d] show ?thesis by simp
  next
    case False
    with d show ?thesis by blast
  qed
qed

lemma split_acc_nonempty:
  "split_acc cur s \<noteq> [] \<longleftrightarrow> cur \<noteq> [] \<or> (\<exists>c\<in>set s. \<not> is_space c)"
  by (induction cur s rule: split_acc.induct) auto

lemma split_nonempty: "split s \<noteq> [] \<longleftrightarrow> (\<exists>c\<in>set s. \<not> is_space c)"
  by (simp add: split_def split_acc_nonempty)

lemma intent_pattern_shapes:
  "(it, ps) \<in> set initialize_intent_patterns \<Longrightarrow> p \<in> set ps
     \<Longrightarrow> (\<exists>ls. p = word_alts ls) \<or> p = Lit ''?''"
  by (auto simp: initialize_intent_patterns_def)

lemma question_not_space: "\<not> is_space CHR ''?''"
  by (simp add: is_space_def)

lemma sum_list_pos_ex: "0 < sum_list (map f ps) \<Longrightarrow> \<exists>p\<in>set ps. 0 < (f p :: nat)"
  by (induction ps) auto

lemma intent_match_nonspace:
  assumes "(it, ps) \<in> set initialize_intent_patterns" "0 < count_matches ps (lower u)"
  shows "split u \<noteq> []"
proof -
  from assms(2) have "\<exists>p\<in>set ps. 0 < length (findall False p (lower u))"
    unfolding count_matches_sum by (rule sum_list_pos_ex)
  then obtain p where p: "p \<in> set ps" "findall False p (lower u) \<noteq> []"
    by auto
  then obtain i where i: "rmatch False p (lower u) i \<noteq> []"
    unfolding findall_def by (blast dest: findall_from_match)
  from intent_pattern_shapes [OF assms(1) p(1)]
  have "\<exists>c\<in>set (lower u). \<not> is_space c"
  proof
    assume "\<exists>ls. p = word_alts ls"
    with i show ?thesis
      using rmatch_word_alts word_boundary_word word_not_space by blast
  next
    assume "p = Lit ''?''"
    with i show ?thesis
      using rmatch_Lit question_not_space by blast
  qed
  then show ?thesis
    using lower_nonspace split_nonempty by blast
qed

section \<open>Properties of the classifier\<close>

lemma dict_set_fresh: "k \<notin> fst ` set d \<Longrightarrow> dict_set d k v = d @ [(k, v)]"
  by (simp add: dict_set_def map_of_eq_None_iff)

lemma score_intents_no_match:
  "\<forall>(it, ps)\<in>set tbl. count_matches ps ul = 0 \<Longrightarrow> score_intents tbl u ul acc = Inr acc"
  by (induction tbl u ul acc rule: score_intents.induct) auto

lemma score_intents_result:
  assumes "distinct (map fst tbl)" "fst ` set acc \<inter> fst ` set tbl = {}"
    and "\<forall>(it, ps)\<in>set tbl. 0 < count_matches ps (lower u) \<longrightarrow> split u \<noteq> []"
  shows "score_intents tbl u (lower u) acc
         = Inr (acc @ map (\<lambda>(it, ps). (it, normalized_score u ps))
                        (filter (\<lambda>(it, ps). 0 < count_matches ps (lower u)) tbl))"
  using assms
proof (induction tbl arbitrary: acc)
  case Nil
  then show ?case by simp
next
  case (Cons x tbl)
  obtain it ps where x: "x = (it, ps)" by (cases x)
  show ?case
  proof (cases "0 < count_matches ps (lower u)")
    case True
    with Cons.prems x have ne: "length (split u) \<noteq> 0" by auto
    from Cons.prems x have fresh: "it \<notin> fst ` set acc" by auto
    let ?acc = "acc @ [(it, normalized_score u ps)]"
    have "fst ` set ?acc \<inter> fst ` set tbl = {}"
      using Cons.prems x by auto
    with Cons.IH [of ?acc] Cons.prems
    have "score_intents tbl u (lower u) ?acc
          = Inr (?acc @ map (\<lambda>(it, ps). (it, normalized_score u ps))
                        (filter (\<lambda>(it, ps). 0 < count_matches ps (lower u)) tbl))"
      by simp
    with True ne fresh x show ?thesis
      by (simp add: dict_set_fresh normalized_score_def)
  next
    case False
    have "fst ` set acc \<inter> fst ` set tbl = {}"
      using Cons.prems by auto
    with Cons.IH [of acc] Cons.prems False x show ?thesis by simp
  qed
qed

lemma intent_patterns_distinct: "distinct (map fst initialize_intent_patterns)"
  by (simp add: initialize_intent_patterns_def)

lemma score_intents_table:
  "score_intents initialize_intent_patterns u (lower u) []
   = Inr (map (\<lambda>(it, ps). (it, normalized_score u ps))
            (filter (\<lambda>(it, ps). 0 < count_matches ps (lower u)) initialize_intent_patterns))"
  using score_intents_result [of initialize_intent_patterns "[]" u]
    intent_patterns_distinct intent_match_nonspace
  by auto

lemma max_by_value_snoc:
  "max_by_value b (xs @ [y]) = (let m = max_by_value b xs in if snd m < snd y then y else m)"
  by (induction xs arbitrary: b) auto

lemma max_by_value_split:
  "\<exists>pre w post. x # xs = pre @ w # post \<and> max_by_value x xs = w
     \<and> (\<forall>e\<in>set pre. snd e < snd w) \<and> (\<forall>e\<in>set post. snd e \<le> snd w)"
proof (induction xs rule: rev_induct)
  case Nil
  show ?case by (intro exI [of _ "[]"] exI [of _ x]) simp
next
  case (snoc y xs)
  then obtain pre w post where s: "x # xs = pre @ w # post" "max_by_value x xs = w"
    "\<forall>e\<in>set pre. snd e < snd w" "\<forall>e\<in>set post. snd e \<le> snd w" by blast
  show ?case
  proof (cases "snd w < snd y")
    case True
    have "x # xs @ [y] = (x # xs) @ y # []" by simp
    moreover have "max_by_value x (xs @ [y]) = y"
      using s(2) True by (simp add: max_by_value_snoc)
    moreover have "\<forall>e\<in>set (pre @ w # post). snd e < snd y"
      using s(3,4) True by fastforce
    then have "\<forall>e\<in>set (x # xs). snd e < snd y"
      using s(1) by simp
    ultimately show ?thesis by (metis empty_iff list.set(1))
  next
    case False
    have "x # xs @ [y] = pre @ w # (post @ [y])" using s(1) by simp
    moreover have "max_by_value x (xs @ [y]) = w"
      using s(2) False by (simp add: max_by_value_snoc)
    moreover have "\<forall>e\<in>set (post @ [y]). snd e \<le> snd w"
      using s(4) False by auto
    ultimately show ?thesis using s(3) by blast
  qed
qed

lemma map_filter_split:
  "map f (filter P xs) = pre @ w # post \<Longrightarrow>
   \<exists>pre' x post'. xs = pre' @ x # post' \<and> P x \<and> f x = w
      \<and> map f (filter P pre') = pre \<and> map f (filter P post') = post"
proof (induction xs arbitrary: pre)
  case Nil
  then show ?case by simp
next
  case (Cons a xs)
  show ?case
  proof (cases "P a")
    case False
    with Cons.prems have "map f (filter P xs) = pre @ w # post" by simp
    from Cons.IH [OF this] obtain pre' x post' where
      "xs = pre' @ x # post'" "P x" "f x = w" "map f (filter P pre') = pre"
      "map f (filter P post') = post" by blast
    with False show ?thesis
      by (intro exI [of _ "a # pre'"] exI [of _ x] exI [of _ post']) simp
  next
    case True
    show ?thesis
    proof (cases pre)
      case Nil
      with True Cons.prems show ?thesis
        by (intro exI [of _ "[]"] exI [of _ a] exI [of _ xs]) simp
    next
      case (Cons b pre2)
      with True Cons.prems have "map f (filter P xs) = pre2 @ w # post" and b: "f a = b" by auto
      from Cons.IH [OF this(1)] obtain pre' x post' where
        "xs = pre' @ x # post'" "P x" "f x = w" "map f (filter P pre') = pre2"
        "map f (filter P post') = post" by blast
      with True b Cons show ?thesis
        by (intro exI [of _ "a # pre'"] exI [of _ x] exI [of _ post']) simp
    qed
  qed
qed

lemma classify_intent_no_error: "classify_intent u \<noteq> Inl e"
  by (simp add: classify_intent_def score_intents_table case_prod_beta split: list.splits)

lemma list_all_no_match:
  assumes "list_all (\<lambda>(it, ps). list_all (\<lambda>p. findall False p s = []) ps) tbl"
  shows "\<forall>(it, ps)\<in>set tbl. count_matches ps s = 0"
  using assms by (auto simp: list_all_iff count_matches_sum)

text \<open>
  Claim C3. When no pattern of any intent category matches the lowered input, the classifier
  returns \<open>OTHER\<close> with confidence exactly 0.5; the empty string is such an input; and
  for no input at all does the classifier raise: the division by the word count is reached
  only for a category with a positive match count, and a match needs a word character or a
  question mark, hence at least one word.
\<close>

theorem classify_intent_fallback:
  "(list_all (\<lambda>(it, ps). list_all (\<lambda>p. findall False p (lower user_input) = []) ps)
      initialize_intent_patterns
    \<longrightarrow> classify_intent user_input = Inr (OTHER, 0.5))
   \<and> classify_intent [] = Inr (OTHER, 0.5)
   \<and> (\<forall>e. classify_intent user_input \<noteq> Inl e)"
proof (intro conjI impI allI)
  assume "list_all (\<lambda>(it, ps). list_all (\<lambda>p. findall False p (lower user_input) = []) ps)
      initialize_intent_patterns"
  then have "score_intents initialize_intent_patterns user_input (lower user_input) [] = Inr []"
    by (intro score_intents_no_match list_all_no_match)
  then show "classify_intent user_input = Inr (OTHER, 0.5)"
    by (simp add: classify_intent_def)
next
  show "classify_intent [] = Inr (OTHER, 0.5)"
    by code_simp
next
  fix e
  show "classify_intent user_input \<noteq> Inl e"
    by (rule classify_intent_no_error)
qed

theorem classify_intent_fallback_witness:
  "list_all (\<lambda>(it, ps). list_all (\<lambda>p. findall False p (lower ''Lorem'') = []) ps)
      initialize_intent_patterns
   \<and> classify_intent ''Lorem'' = Inr (OTHER, 0.5)"
proof -
  have h: "list_all (\<lambda>(it, ps). list_all (\<lambda>p. findall False p (lower ''Lorem'') = []) ps)
      initialize_intent_patterns"
    by code_simp
  with classify_intent_fallback [of "''Lorem''"] show ?thesis by blast
qed

text \<open>
  Claim C5, as amended. Whenever at least one intent category has a match in the input, the
  classifier returns the category of the pattern table with the highest normalised score,
  and among several categories at that score the one declared first: every category
  declared before the winner scores strictly less, every category declared after it scores
  at most as much. The confidence is the doubled score, capped at 1.
\<close>

theorem classify_intent_argmax:
  assumes "list_ex (\<lambda>(it, ps). 0 < count_matches ps (lower user_input)) initialize_intent_patterns"
  shows "\<exists>pre it ps post. initialize_intent_patterns = pre @ (it, ps) # post
     \<and> classify_intent user_input = Inr (it, min (normalized_score user_input ps * 2) 1)
     \<and> (\<forall>(it', ps')\<in>set pre. normalized_score user_input ps' < normalized_score user_input ps)
     \<and> (\<forall>(it', ps')\<in>set post. normalized_score user_input ps' \<le> normalized_score user_input ps)"
proof -
  let ?P = "\<lambda>(it, ps). 0 < count_matches ps (lower user_input)"
  let ?f = "\<lambda>(it, ps). (it, normalized_score user_input ps)"
  let ?scores = "map ?f (filter ?P initialize_intent_patterns)"
  from assms have "?scores \<noteq> []"
    by (auto simp: list_ex_iff filter_empty_conv)
  then obtain x xs where xs: "?scores = x # xs" by (cases ?scores) auto
  from max_by_value_split [of x xs] obtain pre w post where
    w: "x # xs = pre @ w # post" "max_by_value x xs = w"
       "\<forall>e\<in>set pre. snd e < snd w" "\<forall>e\<in>set post. snd e \<le> snd w" by blast
  from xs w(1) have "?scores = pre @ w # post" by simp
  from map_filter_split [OF this] obtain pre' y post' where
    y: "initialize_intent_patterns = pre' @ y # post'" "?P y" "?f y = w"
       "map ?f (filter ?P pre') = pre" "map ?f (filter ?P post') = post" by blast
  obtain it ps where itps: "y = (it, ps)" by (cases y)
  have mem: "(it, ps) \<in> set initialize_intent_patterns"
    using y(1) itps by (metis in_set_conv_decomp)
  have wc: "0 < length (split user_input)"
    using intent_match_nonspace [OF mem, of user_input] y(2) itps by simp
  have pos: "0 < normalized_score user_input ps"
    using y(2) itps wc by (simp add: normalized_score_def)
  have zero: "normalized_score user_input ps' = 0" if "\<not> ?P (it', ps')" for it' ps'
    using that by (simp add: normalized_score_def)
  have weq: "w = (it, normalized_score user_input ps)"
    using y(3) itps by simp
  have cls: "classify_intent user_input = Inr (it, min (normalized_score user_input ps * 2) 1)"
    using xs w(2) weq by (simp add: classify_intent_def score_intents_table)
  have before: "normalized_score user_input ps' < normalized_score user_input ps"
    if "(it', ps') \<in> set pre'" for it' ps'
  proof (cases "?P (it', ps')")
    case True
    with that have "?f (it', ps') \<in> set pre" unfolding y(4) [symmetric] by force
    with w(3) weq show ?thesis by auto
  next
    case False
    with zero pos show ?thesis by simp
  qed
  have after: "normalized_score user_input ps' \<le> normalized_score user_input ps"
    if "(it', ps') \<in> set post'" for it' ps'
  proof (cases "?P (it', ps')")
    case True
    with that have "?f (it', ps') \<in> set post" unfolding y(5) [symmetric] by force
    with w(4) weq show ?thesis by auto
  next
    case False
    with zero pos show ?thesis by simp
  qed
  from y(1) itps cls before after show ?thesis by blast
qed




theorem classify_intent_argmax_witness:
  "list_ex (\<lambda>(it, ps). 0 < count_matches ps (lower ''fix comma'')) initialize_intent_patterns
   \<and> (\<exists>pre it ps post. initialize_intent_patterns = pre @ (it, ps) # post
     \<and> classify_intent ''fix comma'' = Inr (it, min (normalized_score ''fix comma'' ps * 2) 1)
     \<and> (\<forall>(it', ps')\<in>set pre. normalized_score ''fix comma'' ps' < normalized_score ''fix comma'' ps)
     \<and> (\<forall>(it', ps')\<in>set post. normalized_score ''fix comma'' ps' \<le> normalized_score ''fix comma'' ps))"
proof (rule conjI)
  show h: "list_ex (\<lambda>(it, ps). 0 < count_matches ps (lower ''fix comma'')) initialize_intent_patterns"
    by code_simp
  show "\<exists>pre it ps post. initialize_intent_patterns = pre @ (it, ps) # post
     \<and> classify_intent ''fix comma'' = Inr (it, min (normalized_score ''fix comma'' ps * 2) 1)
     \<and> (\<forall>(it', ps')\<in>set pre. normalized_score ''fix comma'' ps' < normalized_score ''fix comma'' ps)
     \<and> (\<forall>(it', ps')\<in>set post. normalized_score ''fix comma'' ps' \<le> normalized_score ''fix comma'' ps)"
    by (rule classify_intent_argmax [OF h])
qed

text \<open>
  The claim as stated, for every input text, fails where nothing matches: all categories of
  the table are then tied at score 0, yet the result is \<open>OTHER\<close>, which the table does
  not declare.
\<close>

lemma other_not_in_table: "OTHER \<notin> fst ` set initialize_intent_patterns"
  by (simp add: initialize_intent_patterns_def)

lemma classify_lorem: "classify_intent ''Lorem'' = Inr (OTHER, 0.5)"
  by code_simp

theorem classify_intent_argmax_counterexample:
  "\<not> (\<exists>pre it ps post. initialize_intent_patterns = pre @ (it, ps) # post
     \<and> classify_intent ''Lorem'' = Inr (it, min (normalized_score ''Lorem'' ps * 2) 1)
     \<and> (\<forall>(it', ps')\<in>set pre. normalized_score ''Lorem'' ps' < normalized_score ''Lorem'' ps)
     \<and> (\<forall>(it', ps')\<in>set post. normalized_score ''Lorem'' ps' \<le> normalized_score ''Lorem'' ps))"
proof
  assume "\<exists>pre it ps post. initialize_intent_patterns = pre @ (it, ps) # post
     \<and> classify_intent ''Lorem'' = Inr (it, min (normalized_score ''Lorem'' ps * 2) 1)
     \<and> (\<forall>(it', ps')\<in>set pre. normalized_score ''Lorem'' ps' < normalized_score ''Lorem'' ps)
     \<and> (\<forall>(it', ps')\<in>set post. normalized_score ''Lorem'' ps' \<le> normalized_score ''Lorem'' ps)"
  then obtain pre it ps post where
    tbl: "initialize_intent_patterns = pre @ (it, ps) # post" and
    cls: "classify_intent ''Lorem'' = Inr (it, min (normalized_score ''Lorem'' ps * 2) 1)"
    by blast
  from cls have "it = OTHER" unfolding classify_lorem by simp
  moreover have "it \<in> fst ` set initialize_intent_patterns"
    unfolding tbl by force
  ultimately show False using other_not_in_table by simp
qed

text \<open>The scores of the scenario input: two matches for \<open>ANSWER\<close> (\<open>how\<close> and the
  question mark) and two for \<open>R_LANGUAGE_USE\<close> (\<open>fix\<close> and \<open>comma\<close>), over nine
  words.\<close>

lemma comma_question_scores:
  "score_intents initialize_intent_patterns ''How do I fix comma usage in this sentence?''
     (lower ''How do I fix comma usage in this sentence?'') []
   = Inr [(ANSWER, 2 / 9), (R_LANGUAGE_USE, 2 / 9)]"
  by code_simp

lemma comma_question_words:
  "length (split ''How do I fix comma usage in this sentence?'') = 9"
  by code_simp

text \<open>
  Claim C4, as amended. On the input "How do I fix comma usage in this sentence?", which
  has nine words, \<open>ANSWER\<close> and \<open>R_LANGUAGE_USE\<close> are tied at the score 2/9 and no
  other category matches; \<open>ANSWER\<close> is declared first and is returned, with confidence
  4/9, which is greater than 0 and at most 1.
\<close>

theorem classify_comma_question:
  "score_intents initialize_intent_patterns ''How do I fix comma usage in this sentence?''
     (lower ''How do I fix comma usage in this sentence?'') []
     = Inr [(ANSWER, 2 / 9), (R_LANGUAGE_USE, 2 / 9)]
   \<and> length (split ''How do I fix comma usage in this sentence?'') = 9
   \<and> classify_intent ''How do I fix comma usage in this sentence?'' = Inr (ANSWER, 4 / 9)
   \<and> (0 :: real) < 4 / 9 \<and> (4 / 9 :: real) \<le> 1"
  by (simp add: comma_question_scores comma_question_words classify_intent_def)

text \<open>The claim as stated selects \<open>R_LANGUAGE_USE\<close>; the classifier does not.\<close>

theorem classify_comma_question_counterexample:
  "map_sum id fst (classify_intent ''How do I fix comma usage in this sentence?'')
   \<noteq> Inr R_LANGUAGE_USE"
  by (simp add: comma_question_scores classify_intent_def)

section \<open>Properties of the validator\<close>










lemma assess_consistency_aspect_Nil: "assess_consistency_aspect r [] aspect = 1"
  by (simp add: assess_consistency_aspect_def)

lemma get_recent_interactions_none:
  "filter (\<lambda>i. i_learner_id i = learner_id \<and> i_assistant_response i \<noteq> None) (db_interactions db) = []
   \<Longrightarrow> get_recent_interactions db learner_id limit = []"
  by (simp add: get_recent_interactions_def)

lemma check_consistency_no_id:
  "p_id (get_learner_profile processed_input) = None \<Longrightarrow>
   c_overall_consistency (check_consistency db r processed_input) = None"
  by (simp add: check_consistency_def)

lemma check_consistency_zero_id:
  "p_id (get_learner_profile processed_input) = Some 0 \<Longrightarrow>
   c_overall_consistency (check_consistency db r processed_input) = None"
  by (simp add: check_consistency_def)

lemma check_consistency_no_recent:
  assumes "p_id (get_learner_profile processed_input) = Some learner_id" "learner_id \<noteq> 0"
    and "get_recent_interactions db learner_id 5 = []"
  shows "c_overall_consistency (check_consistency db r processed_input) = Some 1"
  using assms
  by (simp add: check_consistency_def assess_consistency_aspect_Nil
      initialize_consistency_checks_def dict_set_def Let_def)

text \<open>
  Claim C9. For a learner without a prior interaction that carries an assistant response, the
  overall consistency score the validator uses is exactly 1, on both paths: when the processed
  input holds no learner id the result has no score and the aggregation reads the default 1.0;
  when the id is there and the list of recent interactions is empty, every aspect scores 1.0
  and so does their mean.
\<close>

theorem check_consistency_no_history:
  "(p_id (get_learner_profile processed_input) = None
      \<longrightarrow> get_overall_consistency (check_consistency db r processed_input) = 1)
   \<and> (p_id (get_learner_profile processed_input) = Some learner_id
        \<and> filter (\<lambda>i. i_learner_id i = learner_id \<and> i_assistant_response i \<noteq> None)
              (db_interactions db) = []
      \<longrightarrow> get_overall_consistency (check_consistency db r processed_input) = 1
          \<and> (learner_id \<noteq> 0
               \<longrightarrow> c_overall_consistency (check_consistency db r processed_input) = Some 1))"
proof (intro conjI impI)
  assume "p_id (get_learner_profile processed_input) = None"
  then show "get_overall_consistency (check_consistency db r processed_input) = 1"
    by (simp add: get_overall_consistency_def check_consistency_no_id)
next
  assume a: "p_id (get_learner_profile processed_input) = Some learner_id
        \<and> filter (\<lambda>i. i_learner_id i = learner_id \<and> i_assistant_response i \<noteq> None)
              (db_interactions db) = []"
  then have rec: "get_recent_interactions db learner_id 5 = []"
    by (simp add: get_recent_interactions_none)
  show "get_overall_consistency (check_consistency db r processed_input) = 1"
  proof (cases "learner_id = 0")
    case True
    with a show ?thesis
      by (simp add: get_overall_consistency_def check_consistency_zero_id)
  next
    case False
    with a rec show ?thesis
      by (simp add: get_overall_consistency_def check_consistency_no_recent)
  qed
  assume "learner_id \<noteq> 0"
  with a rec show "c_overall_consistency (check_consistency db r processed_input) = Some 1"
    by (simp add: check_consistency_no_recent)
qed

theorem check_consistency_no_history_witness:
  "p_id (get_learner_profile anonymous_input) = None
   \<and> get_overall_consistency (check_consistency empty_database encouraging_response anonymous_input) = 1
   \<and> p_id (get_learner_profile learner_input) = Some 7
   \<and> get_overall_consistency (check_consistency empty_database encouraging_response learner_input) = 1
   \<and> c_overall_consistency (check_consistency empty_database encouraging_response learner_input) = Some 1"
proof -
  have h1: "p_id (get_learner_profile anonymous_input) = None"
    by (simp add: get_learner_profile_def)
  have h2: "p_id (get_learner_profile learner_input) = Some 7
        \<and> filter (\<lambda>i. i_learner_id i = 7 \<and> i_assistant_response i \<noteq> None)
              (db_interactions empty_database) = []"
    by (simp add: get_learner_profile_def)
  have ne: "(7 :: int) \<noteq> 0"
    by simp
  note T1 = check_consistency_no_history [where processed_input = "anonymous_input"
      and db = "empty_database" and r = "encouraging_response", THEN conjunct1, THEN mp, OF h1]
  note T2 = check_consistency_no_history [where processed_input = "learner_input"
      and learner_id = 7 and db = "empty_database" and r = "encouraging_response", THEN conjunct2, THEN mp, OF h2]
  from h1 T1 h2 [THEN conjunct1] T2 [THEN conjunct1] T2 [THEN conjunct2, THEN mp, OF ne]
  show ?thesis by (intro conjI)
qed




lemma check_educational_standards_raises:
  "check_educational_standards r processed_input = Inl AttributeError"
  by (simp add: check_educational_standards_def initialize_educational_standards_def
      check_requirements_met_def Let_def)

text \<open>
  Claim C1. The validator is to return the approval \<open>overall \<ge> 0.7 \<and> no bias detected\<close>.
  The expression that computes it is the last step of \<^verbatim>\<open>validate_response\<close>, and it is
  never reached: the second assessment, \<^verbatim>\<open>_check_educational_standards\<close>, calls a method
  the class does not define, so for every response, processed input and database the
  call raises \<^verbatim>\<open>AttributeError\<close> before any score or approval exists and before
  anything is written.
\<close>

theorem validate_response_raises:
  "validate_response db r processed_input interaction_id = Inl AttributeError"
  by (simp add: validate_response_def check_educational_standards_raises Let_def)

text \<open>The same at one request: a language-feedback response for learner 7, interaction 3.\<close>

theorem validate_response_raises_witness:
  "validate_response unanswered_database comma_response learner_input 3 = Inl AttributeError"
  by (rule validate_response_raises)




text \<open>The value at these example inputs: 0.4 / 3 + 0.15 + 0.2 + 0.1, rounded.\<close>

lemma overall_example_value:
  "calculate_overall_score (replicate 4 example_quality) (replicate 4 example_compliance) bias_free_result no_comparison = Inr (0.583)"
  by code_simp

section \<open>Properties of memory and feedback\<close>





lemma selected_subset:
  "set (take limit (sort_key f (filter P xs))) \<subseteq> {m \<in> set xs. P m}"
proof -
  have "set (take limit (sort_key f (filter P xs))) \<subseteq> set (sort_key f (filter P xs))"
    by (rule set_take_subset)
  then show ?thesis by auto
qed













end
